theory Spec2Isabelle
  imports Complex_Main "HOL-Library.Multiset" "HOL-Library.Log_Nat"
begin

section \<open>The hamper builder of \<open>src/main.py\<close>\<close>

text \<open>
  The budget-fill engine \<open>create_hamper\<close> and the replacement engine
  \<open>get_replacement_suggestions\<close> are embedded as HOL functions.  The data frame
  \<open>data\<close> is a list of rows, in the order of the frame, and is a parameter of both
  functions, as is the clock date \<open>datetime.today().date()\<close>, the parameter
  \<open>today\<close>.  A row holds what the code reads of it: \<open>MRP\<close> is
  \<open>float(row["MRP"])\<close>, \<open>Available_Units\<close> is \<open>int(row["Available Units"])\<close>, and
  a date is its day number.  A number is a rational: a double is the rational that it
  denotes.  On rows of finite numbers and valid dates, the rows that \<open>load_data\<close>
  keeps, nothing in the two functions raises, so they are total functions without an error
  value.

  The fill is embedded twice.  The first embedding computes prices and totals in exact
  arithmetic, so that \<open>budget * 0.99\<close> is \<open>budget * (99 / 100)\<close>.  What is proved on it
  is about the structure of the hamper: its keys and quantities, the candidate lists, the
  choice among the strategies.  The code computes in doubles, and the second embedding, the
  functions named \<open>_fp\<close>, is the same translation with the rounding \<open>rnd\<close> after each
  arithmetic operation of the code.  With \<open>round_double\<close> it computes what the code
  computes; with the identity it is the first embedding.  The bound on the returned total
  depends on the rounding and is proved on the second.
\<close>

subsection \<open>Inventory rows and the expiry window\<close>

record row =
  Category :: string
  Item_Name :: string
  MRP :: rat
  Available_Units :: int
  Expiry_Date :: int
  Brand_Name :: string
  Inventory_Holding :: string
  Product_Status :: string

type_synonym item_key = "string \<times> string"
type_synonym line = "string \<times> string \<times> int"

definition row_key :: "row \<Rightarrow> item_key" where
  "row_key r = (Category r, Item_Name r)"


definition is_within_expiry :: "int \<Rightarrow> int \<Rightarrow> int \<Rightarrow> int \<Rightarrow> bool" where
  "is_within_expiry today expiry_date min_days max_days =
     (let days_until_expiry = expiry_date - today
      in min_days \<le> days_until_expiry \<and> days_until_expiry \<le> max_days)"

text \<open>The boolean mask of \<open>create_hamper\<close>: the rows of \<open>data\<close> that it keeps.\<close>

definition hamper_filter ::
  "row list \<Rightarrow> int \<Rightarrow> string list \<Rightarrow> string list \<Rightarrow> string list \<Rightarrow> string list \<Rightarrow> int \<Rightarrow> int
     \<Rightarrow> row list" where
  "hamper_filter data today selected_categories selected_inventory selected_status
       selected_brands min_days max_days =
     filter (\<lambda>r. Category r \<in> set selected_categories \<and>
                 Inventory_Holding r \<in> set selected_inventory \<and>
                 Product_Status r \<in> set selected_status \<and>
                 Brand_Name r \<in> set selected_brands \<and>
                 is_within_expiry today (Expiry_Date r) min_days max_days) data"

text \<open>\<open>drop_duplicates(subset=['Item Name', 'Category'])\<close> keeps the first row of each key.\<close>

function drop_duplicates :: "row list \<Rightarrow> row list" where
  "drop_duplicates [] = []"
| "drop_duplicates (r # rs) =
     r # drop_duplicates (filter (\<lambda>r'. row_key r' \<noteq> row_key r) rs)"
  by pat_completeness auto
termination
  by (relation "measure length") (auto simp: less_Suc_eq_le)

text \<open>\<open>df_filtered[(Category == cat) & (Item Name == name)]\<close>, whose \<open>iloc[0]\<close> is its head.\<close>

definition item_match :: "row list \<Rightarrow> item_key \<Rightarrow> row list" where
  "item_match df_filtered k = filter (\<lambda>r. row_key r = k) df_filtered"

subsection \<open>The candidate pool\<close>

record entry =
  category :: string
  name :: string
  mrp :: rat
  qty :: int
  total_cost :: rat
  available_units :: int
  cost_per_unit :: rat

definition entry_key :: "entry \<Rightarrow> item_key" where
  "entry_key item = (category item, name item)"

definition entry_line :: "entry \<Rightarrow> line" where
  "entry_line item = (category item, name item, qty item)"

definition row_entries :: "row \<Rightarrow> entry list" where
  "row_entries r =
     (let max_available = min (Available_Units r) 20;
          m = MRP r
      in map (\<lambda>q. \<lparr>category = Category r, name = Item_Name r, mrp = m, qty = q,
                   total_cost = m * of_int q, available_units = max_available,
                   cost_per_unit = m\<rparr>) [1..max_available])"

definition items_pool :: "row list \<Rightarrow> entry list" where
  "items_pool unique_items = concat (map row_entries unique_items)"

text \<open>
  Python's \<open>sorted\<close> and \<open>list.sort\<close> are stable, also with \<open>reverse=True\<close>, where
  entries of equal key keep their order: that is the insertion sort \<open>sort_key\<close>, on the
  negated key for the descending order.
\<close>

definition items_by_cost :: "entry list \<Rightarrow> entry list" where
  "items_by_cost pool = sort_key total_cost pool"

definition items_by_efficiency :: "entry list \<Rightarrow> entry list" where
  "items_by_efficiency pool = sort_key cost_per_unit pool"

definition items_by_cost_desc :: "entry list \<Rightarrow> entry list" where
  "items_by_cost_desc pool = sort_key (\<lambda>x. - total_cost x) pool"

subsection \<open>Phase 1: the three strategies\<close>

text \<open>The state of a fill: the hamper, its running total and the dictionary of quantities.\<close>

type_synonym fill_state = "line list \<times> rat \<times> (item_key \<rightharpoonup> int)"

text \<open>The inner loop that pops the first line of the entry's key and subtracts its cost.\<close>

fun remove_previous :: "entry \<Rightarrow> line list \<Rightarrow> rat \<Rightarrow> line list \<times> rat" where
  "remove_previous item [] temp_total = ([], temp_total)"
| "remove_previous item ((cat, nm, old_qty) # temp_hamper) temp_total =
     (if cat = category item \<and> nm = name item
      then (temp_hamper, temp_total - mrp item * of_int old_qty)
      else (case remove_previous item temp_hamper temp_total of
              (h, t) \<Rightarrow> ((cat, nm, old_qty) # h, t)))"

definition budget_limit :: "rat \<Rightarrow> string \<Rightarrow> rat" where
  "budget_limit budget strategy_name =
     (if strategy_name = ''cost_descending'' then budget * (102 / 100) else budget)"


definition strategy_step :: "rat \<Rightarrow> string \<Rightarrow> fill_state \<Rightarrow> entry \<Rightarrow> fill_state" where
  "strategy_step budget strategy_name st item =
     (case st of (temp_hamper, temp_total, temp_used) \<Rightarrow>
        if (case temp_used (entry_key item) of Some q \<Rightarrow> qty item \<le> q | None \<Rightarrow> False)
        then st
        else
          let potential_cost = temp_total + total_cost item in
          if potential_cost \<le> budget_limit budget strategy_name
          then
            (case (if temp_used (entry_key item) \<noteq> None
                   then remove_previous item temp_hamper temp_total
                   else (temp_hamper, temp_total)) of
               (h, t) \<Rightarrow>
                 (h @ [entry_line item], t + total_cost item,
                  temp_used(entry_key item \<mapsto> qty item)))
          else st)"

definition run_strategy :: "rat \<Rightarrow> string \<Rightarrow> entry list \<Rightarrow> fill_state" where
  "run_strategy budget strategy_name sorted_items =
     foldl (strategy_step budget strategy_name) ([], 0, Map.empty) sorted_items"

definition strategies :: "entry list \<Rightarrow> (string \<times> entry list) list" where
  "strategies pool =
     [(''cost_ascending'', items_by_cost pool),
      (''efficiency'', items_by_efficiency pool),
      (''cost_descending'', items_by_cost_desc pool)]"

text \<open>``Keep the best result so far'': the test after each strategy.\<close>

definition keep_best :: "rat \<Rightarrow> fill_state \<Rightarrow> fill_state \<Rightarrow> fill_state" where
  "keep_best budget best temp =
     (if fst (snd temp) > fst (snd best) \<and> fst (snd temp) \<le> budget then temp else best)"

definition phase1 :: "rat \<Rightarrow> entry list \<Rightarrow> fill_state" where
  "phase1 budget pool =
     foldl (\<lambda>best (strategy_name, sorted_items).
              keep_best budget best (run_strategy budget strategy_name sorted_items))
       ([], 0, Map.empty) (strategies pool)"

subsection \<open>Phase 2: the optimisation loop\<close>

text \<open>\<open>hamper[i] = (cat, name, new_qty)\<close> at the first line of the key, if there is one.\<close>

fun replace_line :: "item_key \<Rightarrow> int \<Rightarrow> line list \<Rightarrow> line list option" where
  "replace_line k new_qty [] = None"
| "replace_line k new_qty ((h_cat, h_name, h_qty) # hamper) =
     (if h_cat = fst k \<and> h_name = snd k then Some ((fst k, snd k, new_qty) # hamper)
      else map_option ((#) (h_cat, h_name, h_qty)) (replace_line k new_qty hamper))"

text \<open>The loop over \<open>new_qty\<close> for one line of the hamper.\<close>

fun try_quantities ::
  "rat \<Rightarrow> rat \<Rightarrow> item_key \<Rightarrow> int \<Rightarrow> fill_state \<Rightarrow> int list \<Rightarrow> fill_state option" where
  "try_quantities m remaining_budget k current_qty st [] = None"
| "try_quantities m remaining_budget k current_qty st (new_qty # qs) =
     (case st of (hamper, cost_so_far, used_items) \<Rightarrow>
        let cost_increase = m * of_int (new_qty - current_qty) in
        if cost_increase \<le> remaining_budget
        then (case replace_line k new_qty hamper of
                Some hamper' \<Rightarrow> Some (hamper', cost_so_far + cost_increase, used_items(k \<mapsto> new_qty))
              | None \<Rightarrow> try_quantities m remaining_budget k current_qty st qs)
        else try_quantities m remaining_budget k current_qty st qs)"

text \<open>Strategy 1 of the loop: the scan of the lines, stopped at the first increase.\<close>

fun increase_quantity ::
  "row list \<Rightarrow> rat \<Rightarrow> fill_state \<Rightarrow> line list \<Rightarrow> fill_state option" where
  "increase_quantity df_filtered remaining_budget st [] = None"
| "increase_quantity df_filtered remaining_budget st ((cat, nm, current_qty) # ls) =
     (case item_match df_filtered (cat, nm) of
        [] \<Rightarrow> increase_quantity df_filtered remaining_budget st ls
      | r # _ \<Rightarrow>
          (case try_quantities (MRP r) remaining_budget (cat, nm) current_qty st
                  [current_qty + 1..min (Available_Units r) 20] of
             Some st' \<Rightarrow> Some st'
           | None \<Rightarrow> increase_quantity df_filtered remaining_budget st ls))"

text \<open>Strategy 2 of the loop: the dearest entry of a new key that the rest can pay.\<close>

definition add_new_item :: "entry list \<Rightarrow> rat \<Rightarrow> fill_state \<Rightarrow> fill_state option" where
  "add_new_item pool remaining_budget st =
     (case st of (hamper, cost_so_far, used_items) \<Rightarrow>
        let available_items =
              sort_key (\<lambda>x. - total_cost x)
                (filter (\<lambda>item. used_items (entry_key item) = None \<and>
                                total_cost item \<le> remaining_budget) pool)
        in (case find (\<lambda>item. total_cost item \<le> remaining_budget) available_items of
              None \<Rightarrow> None
            | Some item \<Rightarrow>
                Some (hamper @ [entry_line item], cost_so_far + total_cost item,
                      used_items(entry_key item \<mapsto> qty item))))"

definition max_iterations :: nat where
  "max_iterations = 100"

definition target_budget :: "rat \<Rightarrow> rat" where
  "target_budget budget = budget * (99 / 100)"

function phase2 :: "row list \<Rightarrow> entry list \<Rightarrow> rat \<Rightarrow> nat \<Rightarrow> fill_state \<Rightarrow> fill_state" where
  "phase2 df_filtered pool budget iteration (hamper, cost_so_far, used_items) =
     (if cost_so_far < target_budget budget \<and> iteration < max_iterations
      then
        (let remaining_budget = budget - cost_so_far in
         case increase_quantity df_filtered remaining_budget
                (hamper, cost_so_far, used_items) hamper of
           Some st' \<Rightarrow> phase2 df_filtered pool budget (iteration + 1) st'
         | None \<Rightarrow>
             (case add_new_item pool remaining_budget (hamper, cost_so_far, used_items) of
                Some st' \<Rightarrow> phase2 df_filtered pool budget (iteration + 1) st'
              | None \<Rightarrow> (hamper, cost_so_far, used_items)))
      else (hamper, cost_so_far, used_items))"
  by pat_completeness auto
termination
  by (relation "measure (\<lambda>(df_filtered, pool, budget, iteration, st). max_iterations - iteration)")
     auto

declare phase2.simps [simp del]

subsection \<open>Phase 3: the final fill\<close>

definition small_items :: "entry list \<Rightarrow> rat \<Rightarrow> (item_key \<rightharpoonup> int) \<Rightarrow> entry list" where
  "small_items pool final_budget used_items =
     filter (\<lambda>item.
        total_cost item \<le> final_budget \<and>
        (case used_items (entry_key item) of
           None \<Rightarrow> True
         | Some used_qty \<Rightarrow>
             used_qty < qty item \<and>
             mrp item * of_int (qty item - used_qty) \<le> final_budget)) pool"

definition final_step :: "rat \<Rightarrow> fill_state \<Rightarrow> entry \<Rightarrow> fill_state" where
  "final_step budget st item =
     (case st of (hamper, cost_so_far, used_items) \<Rightarrow>
        (case used_items (entry_key item) of
           None \<Rightarrow>
             if cost_so_far + total_cost item \<le> budget
             then (hamper @ [entry_line item], cost_so_far + total_cost item,
                   used_items(entry_key item \<mapsto> qty item))
             else st
         | Some current_qty \<Rightarrow>
             if current_qty < qty item
             then
               (let cost_increase = mrp item * of_int (qty item - current_qty) in
                if cost_so_far + cost_increase \<le> budget
                then (case replace_line (entry_key item) (qty item) hamper of
                        Some hamper' \<Rightarrow>
                          (hamper', cost_so_far + cost_increase,
                           used_items(entry_key item \<mapsto> qty item))
                      | None \<Rightarrow> st)
                else st)
             else st))"

definition phase3 :: "entry list \<Rightarrow> rat \<Rightarrow> fill_state \<Rightarrow> fill_state" where
  "phase3 pool budget st =
     (case st of (hamper, cost_so_far, used_items) \<Rightarrow>
        let final_budget = budget - cost_so_far in
        if final_budget > 0
        then foldl (final_step budget) st
               (sort_key (\<lambda>x. - total_cost x) (small_items pool final_budget used_items))
        else st)"

subsection \<open>\<open>create_hamper\<close>\<close>

text \<open>The body of \<open>create_hamper\<close> from the filtered frame on.\<close>

definition fill_filtered :: "row list \<Rightarrow> rat \<Rightarrow> fill_state" where
  "fill_filtered df_filtered budget =
     (let pool = items_pool (drop_duplicates df_filtered)
      in phase3 pool budget (phase2 df_filtered pool budget 0 (phase1 budget pool)))"

definition create_hamper_filtered :: "row list \<Rightarrow> rat \<Rightarrow> line list \<times> rat" where
  "create_hamper_filtered df_filtered budget =
     (if df_filtered = [] then ([], 0)
      else (case fill_filtered df_filtered budget of
              (hamper, cost_so_far, used_items) \<Rightarrow> (hamper, cost_so_far)))"

definition create_hamper ::
  "row list \<Rightarrow> int \<Rightarrow> rat \<Rightarrow> string list \<Rightarrow> string list \<Rightarrow> string list \<Rightarrow> string list
     \<Rightarrow> int \<Rightarrow> int \<Rightarrow> string \<Rightarrow> line list \<times> rat" where
  "create_hamper data today budget selected_categories selected_inventory selected_status
       selected_brands min_days max_days box_type =
     create_hamper_filtered
       (hamper_filter data today selected_categories selected_inventory selected_status
          selected_brands min_days max_days) budget"

subsection \<open>\<open>get_replacement_suggestions\<close>\<close>

record suggestion =
  sg_name :: string
  sg_mrp :: rat
  sg_available :: int
  sg_expiry :: int
  sg_brand :: string

definition suggestion_of :: "row \<Rightarrow> suggestion" where
  "suggestion_of r =
     \<lparr>sg_name = Item_Name r, sg_mrp = MRP r, sg_available = Available_Units r,
      sg_expiry = Expiry_Date r, sg_brand = Brand_Name r\<rparr>"

definition replacement_filter ::
  "int \<Rightarrow> string \<Rightarrow> string \<Rightarrow> string list \<Rightarrow> string list \<Rightarrow> string list \<Rightarrow> int \<Rightarrow> int
     \<Rightarrow> row \<Rightarrow> bool" where
  "replacement_filter today cat current_item selected_inventory selected_status selected_brands
       min_days max_days r =
     (Category r = cat \<and> Item_Name r \<noteq> current_item \<and>
      Inventory_Holding r \<in> set selected_inventory \<and>
      Product_Status r \<in> set selected_status \<and>
      Brand_Name r \<in> set selected_brands \<and>
      is_within_expiry today (Expiry_Date r) min_days max_days)"

text \<open>
  \<open>sort_values('MRP')\<close> is the sort of pandas, whose default algorithm need not keep
  the order of rows of equal price: it is the parameter \<open>sort_values\<close>, of which
  \<open>sorts_by_MRP\<close> says what a sort by price does.  The date is kept as its day number
  (\<open>strftime\<close> is not modelled).
\<close>

definition sorts_by_MRP :: "(row list \<Rightarrow> row list) \<Rightarrow> bool" where
  "sorts_by_MRP sort_values =
     (\<forall>rows. mset (sort_values rows) = mset rows \<and> sorted (map MRP (sort_values rows)))"

definition get_replacement_suggestions ::
  "(row list \<Rightarrow> row list) \<Rightarrow> row list \<Rightarrow> int \<Rightarrow> string \<Rightarrow> string \<Rightarrow> string list \<Rightarrow> string list
     \<Rightarrow> string list \<Rightarrow> int \<Rightarrow> int \<Rightarrow> suggestion list" where
  "get_replacement_suggestions sort_values data today cat current_item selected_inventory
       selected_status selected_brands min_days max_days =
     map suggestion_of
       (take 7 (sort_values
          (filter (replacement_filter today cat current_item selected_inventory selected_status
                     selected_brands min_days max_days) data)))"

subsection \<open>Double arithmetic\<close>

text \<open>
  \<open>round_double\<close> rounds a rational to the nearest double, ties to the even significand:
  \<open>expo\<close> is the binary exponent of a positive number, \<open>ulp\<close> the spacing of the
  doubles at a number (53 bits of significand, the spacing of the subnormal numbers below
  \<open>2 powi (- 1022)\<close>).  There is no overflow to infinity: a value from \<open>2 ^ 1024\<close> on,
  which the code holds as \<open>inf\<close>, stays finite here, and compares with a budget as
  \<open>inf\<close> does.
\<close>

definition expo :: "rat \<Rightarrow> int" where
  "expo x = (if 1 \<le> x then bitlen \<lfloor>x\<rfloor> - 1 else - bitlen (\<lceil>1 / x\<rceil> - 1))"

definition round_half_even :: "rat \<Rightarrow> int" where
  "round_half_even v =
     (let f = \<lfloor>v\<rfloor>; r = v - of_int f
      in if r < 1 / 2 then f else if 1 / 2 < r then f + 1 else if even f then f else f + 1)"

definition ulp :: "rat \<Rightarrow> rat" where
  "ulp x = 2 powi (max (expo \<bar>x\<bar>) (- 1022) - 52)"

definition round_double :: "rat \<Rightarrow> rat" where
  "round_double x =
     (if x = 0 then 0
      else sgn x * of_int (round_half_even (\<bar>x\<bar> / ulp x)) * ulp x)"

subsection \<open>The fill in double arithmetic\<close>

text \<open>
  Every \<open>+\<close>, \<open>-\<close> and \<open>*\<close> of \<open>create_hamper\<close> on a float is followed by \<open>rnd\<close>;
  the literals \<open>0.99\<close> and \<open>1.02\<close> are \<open>rnd (99 / 100)\<close> and \<open>rnd (102 / 100)\<close>; the
  comparisons are exact, as they are in Python, also between a float and the integer budget.
  Sorting, the dictionary and the lists are those of the first embedding.
\<close>

definition row_entries_fp :: "(rat \<Rightarrow> rat) \<Rightarrow> row \<Rightarrow> entry list" where
  "row_entries_fp rnd r =
     (let max_available = min (Available_Units r) 20;
          m = MRP r
      in map (\<lambda>q. \<lparr>category = Category r, name = Item_Name r, mrp = m, qty = q,
                   total_cost = rnd (m * of_int q), available_units = max_available,
                   cost_per_unit = m\<rparr>) [1..max_available])"

definition items_pool_fp :: "(rat \<Rightarrow> rat) \<Rightarrow> row list \<Rightarrow> entry list" where
  "items_pool_fp rnd unique_items = concat (map (row_entries_fp rnd) unique_items)"

fun remove_previous_fp ::
  "(rat \<Rightarrow> rat) \<Rightarrow> entry \<Rightarrow> line list \<Rightarrow> rat \<Rightarrow> line list \<times> rat" where
  "remove_previous_fp rnd item [] temp_total = ([], temp_total)"
| "remove_previous_fp rnd item ((cat, nm, old_qty) # temp_hamper) temp_total =
     (if cat = category item \<and> nm = name item
      then (temp_hamper, rnd (temp_total - rnd (mrp item * of_int old_qty)))
      else (case remove_previous_fp rnd item temp_hamper temp_total of
              (h, t) \<Rightarrow> ((cat, nm, old_qty) # h, t)))"

definition budget_limit_fp :: "(rat \<Rightarrow> rat) \<Rightarrow> rat \<Rightarrow> string \<Rightarrow> rat" where
  "budget_limit_fp rnd budget strategy_name =
     (if strategy_name = ''cost_descending'' then rnd (budget * rnd (102 / 100)) else budget)"

definition strategy_step_fp ::
  "(rat \<Rightarrow> rat) \<Rightarrow> rat \<Rightarrow> string \<Rightarrow> fill_state \<Rightarrow> entry \<Rightarrow> fill_state" where
  "strategy_step_fp rnd budget strategy_name st item =
     (case st of (temp_hamper, temp_total, temp_used) \<Rightarrow>
        if (case temp_used (entry_key item) of Some q \<Rightarrow> qty item \<le> q | None \<Rightarrow> False)
        then st
        else
          let potential_cost = rnd (temp_total + total_cost item) in
          if potential_cost \<le> budget_limit_fp rnd budget strategy_name
          then
            (case (if temp_used (entry_key item) \<noteq> None
                   then remove_previous_fp rnd item temp_hamper temp_total
                   else (temp_hamper, temp_total)) of
               (h, t) \<Rightarrow>
                 (h @ [entry_line item], rnd (t + total_cost item),
                  temp_used(entry_key item \<mapsto> qty item)))
          else st)"

definition run_strategy_fp ::
  "(rat \<Rightarrow> rat) \<Rightarrow> rat \<Rightarrow> string \<Rightarrow> entry list \<Rightarrow> fill_state" where
  "run_strategy_fp rnd budget strategy_name sorted_items =
     foldl (strategy_step_fp rnd budget strategy_name) ([], 0, Map.empty) sorted_items"

definition phase1_fp :: "(rat \<Rightarrow> rat) \<Rightarrow> rat \<Rightarrow> entry list \<Rightarrow> fill_state" where
  "phase1_fp rnd budget pool =
     foldl (\<lambda>best (strategy_name, sorted_items).
              keep_best budget best (run_strategy_fp rnd budget strategy_name sorted_items))
       ([], 0, Map.empty) (strategies pool)"

fun try_quantities_fp ::
  "(rat \<Rightarrow> rat) \<Rightarrow> rat \<Rightarrow> rat \<Rightarrow> item_key \<Rightarrow> int \<Rightarrow> fill_state \<Rightarrow> int list
     \<Rightarrow> fill_state option" where
  "try_quantities_fp rnd m remaining_budget k current_qty st [] = None"
| "try_quantities_fp rnd m remaining_budget k current_qty st (new_qty # qs) =
     (case st of (hamper, cost_so_far, used_items) \<Rightarrow>
        let cost_increase = rnd (m * of_int (new_qty - current_qty)) in
        if cost_increase \<le> remaining_budget
        then (case replace_line k new_qty hamper of
                Some hamper' \<Rightarrow>
                  Some (hamper', rnd (cost_so_far + cost_increase), used_items(k \<mapsto> new_qty))
              | None \<Rightarrow> try_quantities_fp rnd m remaining_budget k current_qty st qs)
        else try_quantities_fp rnd m remaining_budget k current_qty st qs)"

fun increase_quantity_fp ::
  "(rat \<Rightarrow> rat) \<Rightarrow> row list \<Rightarrow> rat \<Rightarrow> fill_state \<Rightarrow> line list \<Rightarrow> fill_state option" where
  "increase_quantity_fp rnd df_filtered remaining_budget st [] = None"
| "increase_quantity_fp rnd df_filtered remaining_budget st ((cat, nm, current_qty) # ls) =
     (case item_match df_filtered (cat, nm) of
        [] \<Rightarrow> increase_quantity_fp rnd df_filtered remaining_budget st ls
      | r # _ \<Rightarrow>
          (case try_quantities_fp rnd (MRP r) remaining_budget (cat, nm) current_qty st
                  [current_qty + 1..min (Available_Units r) 20] of
             Some st' \<Rightarrow> Some st'
           | None \<Rightarrow> increase_quantity_fp rnd df_filtered remaining_budget st ls))"

definition add_new_item_fp ::
  "(rat \<Rightarrow> rat) \<Rightarrow> entry list \<Rightarrow> rat \<Rightarrow> fill_state \<Rightarrow> fill_state option" where
  "add_new_item_fp rnd pool remaining_budget st =
     (case st of (hamper, cost_so_far, used_items) \<Rightarrow>
        let available_items =
              sort_key (\<lambda>x. - total_cost x)
                (filter (\<lambda>item. used_items (entry_key item) = None \<and>
                                total_cost item \<le> remaining_budget) pool)
        in (case find (\<lambda>item. total_cost item \<le> remaining_budget) available_items of
              None \<Rightarrow> None
            | Some item \<Rightarrow>
                Some (hamper @ [entry_line item], rnd (cost_so_far + total_cost item),
                      used_items(entry_key item \<mapsto> qty item))))"

definition target_budget_fp :: "(rat \<Rightarrow> rat) \<Rightarrow> rat \<Rightarrow> rat" where
  "target_budget_fp rnd budget = rnd (budget * rnd (99 / 100))"

function phase2_fp ::
  "(rat \<Rightarrow> rat) \<Rightarrow> row list \<Rightarrow> entry list \<Rightarrow> rat \<Rightarrow> nat \<Rightarrow> fill_state \<Rightarrow> fill_state" where
  "phase2_fp rnd df_filtered pool budget iteration (hamper, cost_so_far, used_items) =
     (if cost_so_far < target_budget_fp rnd budget \<and> iteration < max_iterations
      then
        (let remaining_budget = rnd (budget - cost_so_far) in
         case increase_quantity_fp rnd df_filtered remaining_budget
                (hamper, cost_so_far, used_items) hamper of
           Some st' \<Rightarrow> phase2_fp rnd df_filtered pool budget (iteration + 1) st'
         | None \<Rightarrow>
             (case add_new_item_fp rnd pool remaining_budget (hamper, cost_so_far, used_items) of
                Some st' \<Rightarrow> phase2_fp rnd df_filtered pool budget (iteration + 1) st'
              | None \<Rightarrow> (hamper, cost_so_far, used_items)))
      else (hamper, cost_so_far, used_items))"
  by pat_completeness auto
termination
  by (relation "measure (\<lambda>(rnd, df_filtered, pool, budget, iteration, st).
        max_iterations - iteration)") auto

declare phase2_fp.simps [simp del]

definition small_items_fp ::
  "(rat \<Rightarrow> rat) \<Rightarrow> entry list \<Rightarrow> rat \<Rightarrow> (item_key \<rightharpoonup> int) \<Rightarrow> entry list" where
  "small_items_fp rnd pool final_budget used_items =
     filter (\<lambda>item.
        total_cost item \<le> final_budget \<and>
        (case used_items (entry_key item) of
           None \<Rightarrow> True
         | Some used_qty \<Rightarrow>
             used_qty < qty item \<and>
             rnd (mrp item * of_int (qty item - used_qty)) \<le> final_budget)) pool"

definition final_step_fp :: "(rat \<Rightarrow> rat) \<Rightarrow> rat \<Rightarrow> fill_state \<Rightarrow> entry \<Rightarrow> fill_state" where
  "final_step_fp rnd budget st item =
     (case st of (hamper, cost_so_far, used_items) \<Rightarrow>
        (case used_items (entry_key item) of
           None \<Rightarrow>
             if rnd (cost_so_far + total_cost item) \<le> budget
             then (hamper @ [entry_line item], rnd (cost_so_far + total_cost item),
                   used_items(entry_key item \<mapsto> qty item))
             else st
         | Some current_qty \<Rightarrow>
             if current_qty < qty item
             then
               (let cost_increase = rnd (mrp item * of_int (qty item - current_qty)) in
                if rnd (cost_so_far + cost_increase) \<le> budget
                then (case replace_line (entry_key item) (qty item) hamper of
                        Some hamper' \<Rightarrow>
                          (hamper', rnd (cost_so_far + cost_increase),
                           used_items(entry_key item \<mapsto> qty item))
                      | None \<Rightarrow> st)
                else st)
             else st))"

definition phase3_fp :: "(rat \<Rightarrow> rat) \<Rightarrow> entry list \<Rightarrow> rat \<Rightarrow> fill_state \<Rightarrow> fill_state" where
  "phase3_fp rnd pool budget st =
     (case st of (hamper, cost_so_far, used_items) \<Rightarrow>
        let final_budget = rnd (budget - cost_so_far) in
        if final_budget > 0
        then foldl (final_step_fp rnd budget) st
               (sort_key (\<lambda>x. - total_cost x)
                  (small_items_fp rnd pool final_budget used_items))
        else st)"

definition fill_filtered_fp :: "(rat \<Rightarrow> rat) \<Rightarrow> row list \<Rightarrow> rat \<Rightarrow> fill_state" where
  "fill_filtered_fp rnd df_filtered budget =
     (let pool = items_pool_fp rnd (drop_duplicates df_filtered)
      in phase3_fp rnd pool budget
           (phase2_fp rnd df_filtered pool budget 0 (phase1_fp rnd budget pool)))"

definition create_hamper_filtered_fp ::
  "(rat \<Rightarrow> rat) \<Rightarrow> row list \<Rightarrow> rat \<Rightarrow> line list \<times> rat" where
  "create_hamper_filtered_fp rnd df_filtered budget =
     (if df_filtered = [] then ([], 0)
      else (case fill_filtered_fp rnd df_filtered budget of
              (hamper, cost_so_far, used_items) \<Rightarrow> (hamper, cost_so_far)))"

definition create_hamper_fp ::
  "(rat \<Rightarrow> rat) \<Rightarrow> row list \<Rightarrow> int \<Rightarrow> rat \<Rightarrow> string list \<Rightarrow> string list \<Rightarrow> string list
     \<Rightarrow> string list \<Rightarrow> int \<Rightarrow> int \<Rightarrow> string \<Rightarrow> line list \<times> rat" where
  "create_hamper_fp rnd data today budget selected_categories selected_inventory
       selected_status selected_brands min_days max_days box_type =
     create_hamper_filtered_fp rnd
       (hamper_filter data today selected_categories selected_inventory selected_status
          selected_brands min_days max_days) budget"

subsection \<open>What the claims speak of\<close>










text \<open>
  The results of the three strategies in the order of their declaration, and the test
  \<open>temp_total > best_total and temp_total <= budget\<close> against the initial
  \<open>best_total = 0\<close>.
\<close>

definition strategy_results :: "rat \<Rightarrow> entry list \<Rightarrow> fill_state list" where
  "strategy_results budget pool =
     map (\<lambda>(strategy_name, sorted_items). run_strategy budget strategy_name sorted_items)
       (strategies pool)"

definition worth_keeping :: "rat \<Rightarrow> fill_state \<Rightarrow> bool" where
  "worth_keeping budget st = (0 < fst (snd st) \<and> fst (snd st) \<le> budget)"



subsection \<open>Example inventories\<close>

definition shelf_row :: "string \<Rightarrow> rat \<Rightarrow> int \<Rightarrow> row" where
  "shelf_row nm price units =
     \<lparr>Category = ''Snacks'', Item_Name = nm, MRP = price, Available_Units = units,
      Expiry_Date = 50, Brand_Name = ''Gofig'', Inventory_Holding = ''Warehouse'',
      Product_Status = ''Live''\<rparr>"

text \<open>A fill of shelf rows on day 0 with every filter open and the window of 15 to 60 days.\<close>

definition shelf_hamper :: "row list \<Rightarrow> rat \<Rightarrow> line list \<times> rat" where
  "shelf_hamper data budget =
     create_hamper data 0 budget [''Snacks''] [''Warehouse''] [''Live''] [''Gofig''] 15 60
       ''Steal Deal''"

definition shelf_view :: "row list \<Rightarrow> row list" where
  "shelf_view data =
     hamper_filter data 0 [''Snacks''] [''Warehouse''] [''Live''] [''Gofig''] 15 60"

definition one_item :: "row list" where
  "one_item = [shelf_row ''Chips'' 100 5]"

definition free_item :: "row list" where
  "free_item = [shelf_row ''Sample'' 0 1]"

definition six_items :: "row list" where
  "six_items =
     [shelf_row ''E1'' 16 1, shelf_row ''E2'' 16 1, shelf_row ''E3'' 16 1,
      shelf_row ''E4'' 16 1, shelf_row ''E5'' 17 1, shelf_row ''A'' 1 20]"





section \<open>Lemmas\<close>






















lemma phase2_step:
  "t < target_budget budget \<and> iteration < max_iterations \<Longrightarrow>
   phase2 df pool budget iteration (h, t, u) =
     (case increase_quantity df (budget - t) (h, t, u) h of
        Some st' \<Rightarrow> phase2 df pool budget (iteration + 1) st'
      | None \<Rightarrow>
          (case add_new_item pool (budget - t) (h, t, u) of
             Some st' \<Rightarrow> phase2 df pool budget (iteration + 1) st'
           | None \<Rightarrow> (h, t, u)))"
  by (subst phase2.simps) (simp add: Let_def)














lemma all_less_3: "(\<forall>j<3. P j) = (P 0 \<and> P (Suc 0) \<and> P 2)"
  by (auto simp: numeral_3_eq_3 numeral_2_eq_2 less_Suc_eq)

lemma ex_less_3: "(\<exists>j<3. P j) = (P 0 \<or> P (Suc 0) \<or> P 2)"
  by (auto simp: numeral_3_eq_3 numeral_2_eq_2 less_Suc_eq)

lemma phase1_keep_best:
  "phase1 budget pool =
     keep_best budget (keep_best budget (keep_best budget ([], 0, Map.empty)
       (strategy_results budget pool ! 0)) (strategy_results budget pool ! 1))
       (strategy_results budget pool ! 2)"
  by (simp add: phase1_def strategy_results_def strategies_def)

subsection \<open>Rounding to a double\<close>




















text \<open>
  Two roundings of the doubles as Python shows them: \<open>15 * 16.6\<close> is
  \<open>249.00000000000003\<close>, above 249, and \<open>0.1 + 0.2\<close> is above \<open>0.3\<close>.
\<close>

lemma round_double_examples:
  "round_double (15 * round_double (166 / 10)) = 249 + 1 / 2 ^ 45"
  "round_double (round_double (1 / 10) + round_double (2 / 10)) =
     round_double (3 / 10) + 1 / 2 ^ 54"
  by code_simp+

subsection \<open>The bound in double arithmetic\<close>













text \<open>With the identity for the rounding, the second embedding is the first.\<close>

lemma remove_previous_fp_exact:
  "remove_previous_fp (\<lambda>x. x) item h t = remove_previous item h t"
  by (induction h) auto

lemma strategy_step_fp_exact:
  "strategy_step_fp (\<lambda>x. x) budget sn = strategy_step budget sn"
  by (auto simp: fun_eq_iff strategy_step_fp_def strategy_step_def budget_limit_fp_def
        budget_limit_def remove_previous_fp_exact Let_def)

lemma phase1_fp_exact: "phase1_fp (\<lambda>x. x) budget pool = phase1 budget pool"
  by (simp add: phase1_fp_def phase1_def run_strategy_fp_def run_strategy_def
        strategy_step_fp_exact)

lemma try_quantities_fp_exact:
  "try_quantities_fp (\<lambda>x. x) m rem k cur st qs = try_quantities m rem k cur st qs"
  by (induction qs) (auto simp: Let_def split: option.splits prod.splits)

lemma increase_quantity_fp_exact:
  "increase_quantity_fp (\<lambda>x. x) df rem st ls = increase_quantity df rem st ls"
  by (induction ls) (auto simp: try_quantities_fp_exact split: list.splits option.splits)

lemma add_new_item_fp_exact:
  "add_new_item_fp (\<lambda>x. x) pool rem st = add_new_item pool rem st"
  by (simp add: add_new_item_fp_def add_new_item_def)

lemma phase2_fp_exact:
  "phase2_fp (\<lambda>x. x) df pool budget iteration st = phase2 df pool budget iteration st"
proof (induction df pool budget iteration st rule: phase2.induct)
  case (1 df pool budget iteration h t u)
  show ?case
    apply (subst phase2_fp.simps)
    apply (subst phase2.simps)
    using 1
    apply (auto simp: Let_def target_budget_fp_def target_budget_def increase_quantity_fp_exact
        add_new_item_fp_exact split: option.splits)
    done
qed

lemma phase3_fp_exact: "phase3_fp (\<lambda>x. x) pool budget st = phase3 pool budget st"
proof -
  have "final_step_fp (\<lambda>x. x) budget = final_step budget"
    by (auto simp: fun_eq_iff final_step_fp_def final_step_def Let_def split: option.splits)
  then show ?thesis
    by (cases st) (simp add: phase3_fp_def phase3_def small_items_fp_def small_items_def)
qed

lemma items_pool_fp_exact: "items_pool_fp (\<lambda>x. x) rows = items_pool rows"
proof -
  have "row_entries_fp (\<lambda>x. x) = row_entries"
    by (simp add: fun_eq_iff row_entries_fp_def row_entries_def)
  then show ?thesis by (simp add: items_pool_fp_def items_pool_def)
qed

lemma create_hamper_fp_exact:
  "create_hamper_fp (\<lambda>x. x) data today budget selected_categories selected_inventory
     selected_status selected_brands min_days max_days box_type =
   create_hamper data today budget selected_categories selected_inventory
     selected_status selected_brands min_days max_days box_type"
  by (simp add: create_hamper_fp_def create_hamper_def create_hamper_filtered_fp_def
        create_hamper_filtered_def fill_filtered_fp_def fill_filtered_def items_pool_fp_exact
        phase1_fp_exact phase2_fp_exact phase3_fp_exact)

section \<open>The claims\<close>

subsection \<open>The budget bound\<close>



subsection \<open>One line for each key\<close>



subsection \<open>Acceptance in a strategy pass\<close>




subsection \<open>The choice among the three strategies\<close>

text \<open>
  Claim C4, as the specification states it, fails.  For the one free item (price 0) and budget
  100 the cost-ascending strategy yields a hamper of one line with total 0, which is within
  the budget and not empty, and yet the chosen result is the empty hamper.
\<close>

theorem phase1_drops_free_hamper:
  "map (\<lambda>st. (fst st, fst (snd st)))
     (strategy_results 100 (items_pool (drop_duplicates (shelf_view free_item)))) =
     [([(''Snacks'', ''Sample'', 1)], 0), ([(''Snacks'', ''Sample'', 1)], 0),
      ([(''Snacks'', ''Sample'', 1)], 0)] \<and>
   (0::rat) \<le> 100 \<and>
   fst (phase1 100 (items_pool (drop_duplicates (shelf_view free_item)))) = []"
  by code_simp

text \<open>
  Claim C4, amended.  The strategies are declared in the order cost-ascending, efficiency,
  cost-descending.  Either the chosen result is the result of a strategy whose total is
  positive and at most the budget, no such result has a larger total, and every such result
  of an earlier strategy has a smaller total; or no strategy has a result with a positive
  total that is at most the budget, and the chosen result is the empty hamper with total
  cost zero.
\<close>

theorem phase1_choice:
  "map fst (strategies pool) = [''cost_ascending'', ''efficiency'', ''cost_descending''] \<and>
   ((\<exists>i<3. worth_keeping budget (strategy_results budget pool ! i) \<and>
        phase1 budget pool = strategy_results budget pool ! i \<and>
        (\<forall>j<3. worth_keeping budget (strategy_results budget pool ! j) \<longrightarrow>
           fst (snd (strategy_results budget pool ! j)) \<le> fst (snd (strategy_results budget pool ! i)) \<and>
           (j < i \<longrightarrow> fst (snd (strategy_results budget pool ! j))
                        < fst (snd (strategy_results budget pool ! i))))) \<or>
    (phase1 budget pool = ([], 0, Map.empty) \<and>
     (\<forall>j<3. \<not> worth_keeping budget (strategy_results budget pool ! j))))"
proof -
  obtain a e d where r: "strategy_results budget pool = [a, e, d]"
    by (simp add: strategy_results_def strategies_def)
  have "phase1 budget pool = keep_best budget (keep_best budget (keep_best budget ([], 0, Map.empty) a) e) d"
    by (simp add: phase1_keep_best r)
  then show ?thesis
    unfolding all_less_3 ex_less_3 r
    by (simp add: strategies_def keep_best_def worth_keeping_def) (auto; linarith)
qed

theorem phase1_choice_witness:
  "worth_keeping 100 (strategy_results 100 (items_pool six_items) ! 0) \<and>
   \<not> worth_keeping 100 (strategy_results 100 (items_pool six_items) ! 2) \<and>
   phase1 100 (items_pool six_items) = strategy_results 100 (items_pool six_items) ! 0"
proof -
  let ?R = "strategy_results 100 (items_pool six_items)"
  have t: "fst (snd (?R ! 0)) = 97" "fst (snd (?R ! Suc 0)) = 84" "fst (snd (?R ! 2)) = 101"
    by code_simp+
  then have w: "worth_keeping 100 (?R ! 0)" "\<not> worth_keeping 100 (?R ! 2)"
    by (simp_all add: worth_keeping_def)
  from phase1_choice [of "items_pool six_items" 100] t w show ?thesis
    unfolding all_less_3 ex_less_3 by auto
qed

subsection \<open>The candidates of the final fill\<close>




subsection \<open>The scenario of one item\<close>

text \<open>
  Claim C6.  When the filtered view holds exactly one row, of price 100 with 5 available
  units, the fill with budget 250 returns the single line of that item at quantity 2, and the
  total cost 200.
\<close>

theorem create_hamper_one_item:
  assumes "hamper_filter data today selected_categories selected_inventory selected_status
             selected_brands min_days max_days = [r]"
    "MRP r = 100" "Available_Units r = 5"
  shows "create_hamper data today 250 selected_categories selected_inventory selected_status
           selected_brands min_days max_days box_type =
     ([(Category r, Item_Name r, 2)], 200)"
proof -
  let ?c = "Category r" and ?n = "Item_Name r"
  let ?e = "\<lambda>q c. \<lparr>category = ?c, name = ?n, mrp = 100, qty = q, total_cost = c,
              available_units = 5, cost_per_unit = 100\<rparr>"
  have dd: "drop_duplicates [r] = [r]" by simp
  have pool: "items_pool [r] = [?e 1 100, ?e 2 200, ?e 3 300, ?e 4 400, ?e 5 500]"
    using assms(2,3) by (simp add: items_pool_def row_entries_def upto_rec1 [of 1] upto_rec1 [of 2] upto_rec1 [of 3] upto_rec1 [of 4] upto_rec1 [of 5])
  have asc: "items_by_cost (items_pool [r]) = [?e 1 100, ?e 2 200, ?e 3 300, ?e 4 400, ?e 5 500]"
    by (simp add: pool items_by_cost_def)
  have eff: "items_by_efficiency (items_pool [r]) = [?e 1 100, ?e 2 200, ?e 3 300, ?e 4 400, ?e 5 500]"
    by (simp add: pool items_by_efficiency_def)
  have desc: "items_by_cost_desc (items_pool [r]) = [?e 5 500, ?e 4 400, ?e 3 300, ?e 2 200, ?e 1 100]"
    by (simp add: pool items_by_cost_desc_def)
  have r1: "run_strategy 250 ''cost_ascending'' [?e 1 100, ?e 2 200, ?e 3 300, ?e 4 400, ?e 5 500] = ([(?c, ?n, 1)], 100, [(?c, ?n) \<mapsto> 1])"
    by (simp add: run_strategy_def strategy_step_def budget_limit_def entry_key_def entry_line_def)
  have r2: "run_strategy 250 ''efficiency'' [?e 1 100, ?e 2 200, ?e 3 300, ?e 4 400, ?e 5 500] = ([(?c, ?n, 1)], 100, [(?c, ?n) \<mapsto> 1])"
    by (simp add: run_strategy_def strategy_step_def budget_limit_def entry_key_def entry_line_def)
  have r3: "run_strategy 250 ''cost_descending'' [?e 5 500, ?e 4 400, ?e 3 300, ?e 2 200, ?e 1 100] = ([(?c, ?n, 2)], 200, [(?c, ?n) \<mapsto> 2])"
    by (simp add: run_strategy_def strategy_step_def budget_limit_def entry_key_def entry_line_def)
  have p1: "phase1 250 (items_pool [r]) = ([(?c, ?n, 2)], 200, [(?c, ?n) \<mapsto> 2])"
    by (simp add: phase1_def strategies_def asc eff desc r1 r2 r3 keep_best_def)
  have im: "item_match [r] (?c, ?n) = [r]" by (simp add: item_match_def row_key_def)
  have inc: "increase_quantity [r] 50 ([(?c, ?n, 2)], 200, [(?c, ?n) \<mapsto> 2]) [(?c, ?n, 2)] = None"
    using assms(2,3) by (simp add: im upto_rec1 [of 3] upto_rec1 [of 4] upto_rec1 [of 5])
  have add: "add_new_item (items_pool [r]) 50 ([(?c, ?n, 2)], 200, [(?c, ?n) \<mapsto> 2]) = None"
    by (simp add: pool add_new_item_def entry_key_def)
  have p2: "phase2 [r] (items_pool [r]) 250 0 ([(?c, ?n, 2)], 200, [(?c, ?n) \<mapsto> 2]) = ([(?c, ?n, 2)], 200, [(?c, ?n) \<mapsto> 2])"
    using inc add
    by (simp add: phase2_step target_budget_def max_iterations_def del: increase_quantity.simps)
  have p3: "phase3 (items_pool [r]) 250 ([(?c, ?n, 2)], 200, [(?c, ?n) \<mapsto> 2]) = ([(?c, ?n, 2)], 200, [(?c, ?n) \<mapsto> 2])"
    by (simp add: phase3_def small_items_def pool entry_key_def)
  show ?thesis
    by (simp add: create_hamper_def assms(1) create_hamper_filtered_def fill_filtered_def dd p1 p2 p3)
qed

theorem create_hamper_one_item_witness:
  "shelf_view one_item = [shelf_row ''Chips'' 100 5] \<and>
   MRP (shelf_row ''Chips'' 100 5) = 100 \<and> Available_Units (shelf_row ''Chips'' 100 5) = 5 \<and>
   shelf_hamper one_item 250 = ([(''Snacks'', ''Chips'', 2)], 200)"
proof -
  have v: "hamper_filter one_item 0 [''Snacks''] [''Warehouse''] [''Live''] [''Gofig''] 15 60 =
      [shelf_row ''Chips'' 100 5]"
    by (simp add: hamper_filter_def one_item_def shelf_row_def is_within_expiry_def)
  have m: "MRP (shelf_row ''Chips'' 100 5) = 100" and a: "Available_Units (shelf_row ''Chips'' 100 5) = 5"
    by (simp_all add: shelf_row_def)
  from create_hamper_one_item [OF v m a, of "''Steal Deal''"] v m a show ?thesis
    by (simp add: shelf_hamper_def shelf_view_def shelf_row_def)
qed

subsection \<open>Replacement suggestions\<close>

text \<open>
  Claim C7.  Whatever sort by price \<open>sort_values\<close> is, the suggestions never name the
  excluded item, are at most 7, are in ascending order of price, and are each the
  suggestion of a row of \<open>data\<close> that has the requested category and passes the
  inventory-holding, status, brand and expiry-window filters; the list is empty exactly when
  no row qualifies, and that is a result like any other.
\<close>

theorem get_replacement_suggestions_sound:
  assumes "sorts_by_MRP sort_values"
  shows "current_item \<notin> sg_name ` set (get_replacement_suggestions sort_values data today cat current_item
             selected_inventory selected_status selected_brands min_days max_days) \<and>
    length (get_replacement_suggestions sort_values data today cat current_item
             selected_inventory selected_status selected_brands min_days max_days) \<le> 7 \<and>
    sorted (map sg_mrp (get_replacement_suggestions sort_values data today cat current_item
             selected_inventory selected_status selected_brands min_days max_days)) \<and>
    (\<forall>s \<in> set (get_replacement_suggestions sort_values data today cat current_item
             selected_inventory selected_status selected_brands min_days max_days).
       \<exists>r \<in> set data. s = suggestion_of r \<and> Category r = cat \<and> Item_Name r \<noteq> current_item \<and>
         Inventory_Holding r \<in> set selected_inventory \<and> Product_Status r \<in> set selected_status \<and>
         Brand_Name r \<in> set selected_brands \<and>
         min_days \<le> Expiry_Date r - today \<and> Expiry_Date r - today \<le> max_days) \<and>
    ((get_replacement_suggestions sort_values data today cat current_item
             selected_inventory selected_status selected_brands min_days max_days = []) =
       (\<forall>r \<in> set data. \<not> replacement_filter today cat current_item selected_inventory
                             selected_status selected_brands min_days max_days r))"
proof -
  let ?P = "replacement_filter today cat current_item selected_inventory selected_status
      selected_brands min_days max_days"
  let ?xs = "filter ?P data"
  let ?ys = "take 7 (sort_values ?xs)"
  have res: "get_replacement_suggestions sort_values data today cat current_item
             selected_inventory selected_status selected_brands min_days max_days
      = map suggestion_of ?ys"
    by (simp add: get_replacement_suggestions_def)
  from assms have m: "mset (sort_values ?xs) = mset ?xs" and so: "sorted (map MRP (sort_values ?xs))"
    by (simp_all add: sorts_by_MRP_def)
  from m have st: "set (sort_values ?xs) = set ?xs" by (rule mset_eq_setD)
  have sub: "set ?ys \<subseteq> {r \<in> set data. ?P r}"
    using set_take_subset [of 7 "sort_values ?xs"] st by auto
  have mp: "map sg_mrp (map suggestion_of ?ys) = map MRP ?ys" "map sg_name (map suggestion_of ?ys) = map Item_Name ?ys"
    by (simp_all add: suggestion_of_def)
  have 1: "current_item \<notin> sg_name ` set (map suggestion_of ?ys)"
    using sub by (auto simp: suggestion_of_def replacement_filter_def)
  have 2: "length (map suggestion_of ?ys) \<le> 7" by simp
  have 3: "sorted (map sg_mrp (map suggestion_of ?ys))"
    unfolding mp using so by (simp add: take_map [symmetric] sorted_wrt_take)
  have 4: "\<forall>s \<in> set (map suggestion_of ?ys).
       \<exists>r \<in> set data. s = suggestion_of r \<and> Category r = cat \<and> Item_Name r \<noteq> current_item \<and>
         Inventory_Holding r \<in> set selected_inventory \<and> Product_Status r \<in> set selected_status \<and> Brand_Name r \<in> set selected_brands \<and>
         min_days \<le> Expiry_Date r - today \<and> Expiry_Date r - today \<le> max_days"
    using sub by (fastforce simp: replacement_filter_def is_within_expiry_def Let_def)
  have "(map suggestion_of ?ys = []) = (sort_values ?xs = [])" by simp
  also have "\<dots> = (?xs = [])" using m by (metis mset_zero_iff)
  also have "\<dots> = (\<forall>r \<in> set data. \<not> ?P r)" by (simp add: filter_empty_conv)
  finally have 5: "(map suggestion_of ?ys = []) = (\<forall>r \<in> set data. \<not> ?P r)" .
  from 1 2 3 4 5 show ?thesis unfolding res by blast
qed

theorem get_replacement_suggestions_sound_witness:
  "sorts_by_MRP (sort_key MRP) \<and>
   ''A'' \<notin> sg_name ` set (get_replacement_suggestions (sort_key MRP) six_items 0 ''Snacks'' ''A''
               [''Warehouse''] [''Live''] [''Gofig''] 15 60) \<and>
   map sg_name (get_replacement_suggestions (sort_key MRP) six_items 0 ''Snacks'' ''A''
               [''Warehouse''] [''Live''] [''Gofig''] 15 60) = [''E1'', ''E2'', ''E3'', ''E4'', ''E5'']"
proof -
  have h: "sorts_by_MRP (sort_key MRP)" by (simp add: sorts_by_MRP_def)
  have "map sg_name (get_replacement_suggestions (sort_key MRP) six_items 0 ''Snacks'' ''A''
               [''Warehouse''] [''Live''] [''Gofig''] 15 60) = [''E1'', ''E2'', ''E3'', ''E4'', ''E5'']"
    by code_simp
  with get_replacement_suggestions_sound [OF h, of "''A''" six_items 0 "''Snacks''"
      "[''Warehouse'']" "[''Live'']" "[''Gofig'']" 15 60] h
  show ?thesis by blast
qed

subsection \<open>The quantity cap\<close>



subsection \<open>A hamper that is not empty\<close>



end
